theory Spec2Isabelle
  imports Complex_Main "HOL-Library.Multiset"
begin

section \<open>Data model\<close>

text \<open>
  The script computes with Python numbers (ints and floats). They are modelled as exact
  rationals: every statement below is about the arithmetic the code writes down, not about
  the rounding of binary floating point. The only exception the arithmetic can raise is
  \<open>ZeroDivisionError\<close>, raised by \<open>/\<close> on a zero divisor.
\<close>

datatype error = ZeroDivisionError

record Assignment =
  name :: string
  score :: rat
  weight :: rat
  assignment_type :: string

record Course =
  course_name :: string
  assignments :: "Assignment list"
  attendance :: "(string \<times> string) list"
  total_sessions :: int


section \<open>Arithmetic that can raise\<close>

text \<open>Python's \<open>x / y\<close>: true division, raising on a zero divisor.\<close>

definition truediv :: "rat \<Rightarrow> rat \<Rightarrow> error + rat" where
  "truediv x y = (if y = 0 then Inl ZeroDivisionError else Inr (x / y))"

text \<open>The expression \<open>x / y * 100\<close> (in the source also written \<open>(x / y) * 100\<close>).\<close>

definition percent_of :: "rat \<Rightarrow> rat \<Rightarrow> error + rat" where
  "percent_of x y = (case truediv x y of Inl e \<Rightarrow> Inl e | Inr q \<Rightarrow> Inr (q * 100))"

section \<open>Assignment\<close>


section \<open>Course\<close>

text \<open>
  \<open>calculate_attendance\<close>: the generator \<open>sum(1 for _, status in self.attendance if
  status == 'Present')\<close> adds a one for every matching record; the quotient by
  \<open>total_sessions\<close> is not guarded.
\<close>

definition total_present :: "Course \<Rightarrow> int" where
  "total_present c =
     sum_list (map (\<lambda>(d, status). 1) (filter (\<lambda>(d, status). status = ''Present'') (attendance c)))"

definition calculate_attendance :: "Course \<Rightarrow> error + rat" where
  "calculate_attendance c = percent_of (of_int (total_present c)) (of_int (total_sessions c))"




text \<open>The list comprehension of \<open>get_resubmission_candidates\<close>.\<close>

definition get_resubmission_candidates :: "Course \<Rightarrow> string list" where
  "get_resubmission_candidates c =
     [name a. a \<leftarrow> assignments c, score a < 50 \<and> assignment_type a = ''Formative'']"

text \<open>
  Python's builtin \<open>sorted(xs, key=k, reverse=r)\<close>. The language guarantees a stable
  sort, and that \<open>reverse=True\<close> keeps the original order of elements with equal
  keys; CPython obtains that by reversing the list, sorting it stably and reversing the
  result, which is what is written here. \<open>sort_key\<close> is the library's insertion sort.
\<close>

definition sorted_builtin :: "('a \<Rightarrow> rat) \<Rightarrow> bool \<Rightarrow> 'a list \<Rightarrow> 'a list" where
  "sorted_builtin k reverse xs = (if reverse then rev (sort_key k (rev xs)) else sort_key k xs)"

definition generate_transcript :: "Course \<Rightarrow> string \<Rightarrow> Assignment list" where
  "generate_transcript c sort_order =
     sorted_builtin score (sort_order = ''descending'') (assignments c)"

section \<open>Student\<close>




section \<open>Construction and the example data\<close>

text \<open>
  The constructors and the append-only mutators, as functions that return the new value,
  and the three courses and the student that the script builds under
  \<open># Example usage\<close>, by the same sequence of calls.
\<close>

definition Assignment_init :: "string \<Rightarrow> rat \<Rightarrow> rat \<Rightarrow> string \<Rightarrow> Assignment" where
  "Assignment_init n sc w t = \<lparr>name = n, score = sc, weight = w, assignment_type = t\<rparr>"

definition Course_init :: "string \<Rightarrow> int \<Rightarrow> Course" where
  "Course_init n ts = \<lparr>course_name = n, assignments = [], attendance = [], total_sessions = ts\<rparr>"

definition add_assignment :: "Course \<Rightarrow> Assignment \<Rightarrow> Course" where
  "add_assignment c a = c\<lparr>assignments := assignments c @ [a]\<rparr>"

definition mark_attendance :: "Course \<Rightarrow> string \<times> string \<Rightarrow> Course" where
  "mark_attendance c r = c\<lparr>attendance := attendance c @ [r]\<rparr>"



definition course_1 :: Course where
  "course_1 =
     foldl mark_attendance
       (foldl add_assignment (Course_init ''Introduction to Programming and Databases'' 7)
          [Assignment_init ''Python - Hello, World'' 100 10 ''Formative'',
           Assignment_init ''Python - Inheritance'' (4059 / 100) 20 ''Formative'',
           Assignment_init ''Python - Data Structures'' 100 30 ''Summative''])
       [(''Sep 16'', ''Present''), (''Sep 17'', ''Present''), (''Sep 18'', ''Present''),
        (''Sep 19'', ''Present''), (''Sep 20'', ''Present''), (''Sep 21'', ''Present''),
        (''Sep 22'', ''Present'')]"


definition course_3 :: Course where
  "course_3 =
     foldl add_assignment (Course_init ''Introduction to IT Tools and Linux'' 10)
       [Assignment_init ''Pre-reading Sunday 1'' 90 10 ''Formative'',
        Assignment_init ''Discussion Board'' 100 20 ''Formative'',
        Assignment_init ''In Call Check-in Quiz 1'' 65 15 ''Formative'',
        Assignment_init ''Pre-reading Sunday 2'' (8333 / 100) 15 ''Formative'',
        Assignment_init ''General Quiz'' (7551 / 100) 15 ''Formative'',
        Assignment_init ''Shell, processes and signals'' 100 25 ''Summative'']"


section \<open>The report\<close>







section \<open>Objects in a store\<close>

text \<open>
  A Python list is a mutable object that a course refers to: whether a method changes the
  course depends on whether it writes to the objects the course reaches. For that question
  the objects live in a store. An address is an index into the store; allocation appends,
  and nothing is ever freed.
\<close>

type_synonym addr = nat

datatype pyobj =
    AssignmentList "Assignment list"
  | AttendanceList "(string \<times> string) list"
  | CourseObj string addr addr int

type_synonym store = "pyobj list"

definition store_lookup :: "store \<Rightarrow> addr \<Rightarrow> pyobj option" where
  "store_lookup h p = (if p < length h then Some (h ! p) else None)"

definition store_alloc :: "pyobj \<Rightarrow> store \<Rightarrow> addr \<times> store" where
  "store_alloc v h = (length h, h @ [v])"

text \<open>
  The course object at an address, read as a value: \<open>CourseObj n asg att ts\<close> holds the
  name, the addresses of the two lists \<open>self.assignments\<close> and \<open>self.attendance\<close>, and
  \<open>total_sessions\<close>.
\<close>

definition course_at :: "store \<Rightarrow> addr \<Rightarrow> Course option" where
  "course_at h p =
     (case store_lookup h p of
        Some (CourseObj n asg att ts) \<Rightarrow>
          (case (store_lookup h asg, store_lookup h att) of
             (Some (AssignmentList xs), Some (AttendanceList ys)) \<Rightarrow>
               Some \<lparr>course_name = n, assignments = xs, attendance = ys, total_sessions = ts\<rparr>
           | _ \<Rightarrow> None)
      | _ \<Rightarrow> None)"

text \<open>
  \<open>generate_transcript\<close> on the store: it reads \<open>self.assignments\<close>, and \<open>sorted\<close>
  builds a new list object, whose address is returned. There is no write to an
  existing object in the method.
\<close>

definition generate_transcript_store :: "addr \<Rightarrow> string \<Rightarrow> store \<Rightarrow> (addr \<times> store) option" where
  "generate_transcript_store self sort_order h =
     (case store_lookup h self of
        Some (CourseObj n asg att ts) \<Rightarrow>
          (case store_lookup h asg of
             Some (AssignmentList xs) \<Rightarrow>
               Some (store_alloc
                 (AssignmentList (sorted_builtin score (sort_order = ''descending'') xs)) h)
           | _ \<Rightarrow> None)
      | _ \<Rightarrow> None)"

section \<open>Properties of the arithmetic\<close>

lemma percent_of_nonzero: "y \<noteq> 0 \<Longrightarrow> percent_of x y = Inr (x / y * 100)"
  by (simp add: percent_of_def truediv_def)

lemma percent_of_zero: "percent_of x 0 = Inl ZeroDivisionError"
  by (simp add: percent_of_def truediv_def)



section \<open>Properties of the course aggregation\<close>







lemma comprehension_filter:
  "concat (map (\<lambda>a. if P a then [f a] else []) xs) = map f (filter P xs)"
  by (induction xs) simp_all

lemma filter_filter_implied:
  "(\<And>a. P a \<Longrightarrow> Q a) \<Longrightarrow> filter P (filter Q xs) = filter P xs"
  by (induction xs) auto

text \<open>
  C6. For every course, \<open>get_resubmission_candidates\<close> returns exactly the names of the
  assignments that are Formative and have a score below 50, in the order of the course's
  list; Summative assignments never contribute, whatever their scores: removing them from
  the course leaves the result as it is.
\<close>

theorem get_resubmission_candidates_spec:
  "get_resubmission_candidates c =
     map name (filter (\<lambda>a. assignment_type a = ''Formative'' \<and> score a < 50) (assignments c)) \<and>
   get_resubmission_candidates
     (c\<lparr>assignments := filter (\<lambda>a. assignment_type a \<noteq> ''Summative'') (assignments c)\<rparr>) =
     get_resubmission_candidates c"
proof -
  have shape: "get_resubmission_candidates d =
      map name (filter (\<lambda>a. assignment_type a = ''Formative'' \<and> score a < 50) (assignments d))"
    for d
    by (simp add: get_resubmission_candidates_def comprehension_filter conj_commute)
  have drop: "filter (\<lambda>a. assignment_type a = ''Formative'' \<and> score a < 50)
          (filter (\<lambda>a. assignment_type a \<noteq> ''Summative'') (assignments c)) =
        filter (\<lambda>a. assignment_type a = ''Formative'' \<and> score a < 50) (assignments c)"
    by (rule filter_filter_implied) auto
  show ?thesis by (simp del: filter_filter add: shape drop)
qed

theorem get_resubmission_candidates_spec_witness:
  "get_resubmission_candidates course_1 = [''Python - Inheritance''] \<and>
   get_resubmission_candidates
     (add_assignment (Course_init ''X'' 7) (Assignment_init ''Exam'' 40 50 ''Summative'')) = []"
  using get_resubmission_candidates_spec [of course_1]
    get_resubmission_candidates_spec
      [of "add_assignment (Course_init ''X'' 7) (Assignment_init ''Exam'' 40 50 ''Summative'')"]
  by (simp add: course_1_def Course_init_def Assignment_init_def add_assignment_def
      mark_attendance_def)

section \<open>Properties of the attendance percentage\<close>

lemma sum_of_ones:
  "sum_list (map (\<lambda>(d, status). 1) (filter (\<lambda>(d, status). status = s) xs)) =
     int (length (filter (\<lambda>r. snd r = s) xs))"
  by (induction xs) auto

lemma total_present_count:
  "total_present c = int (length (filter (\<lambda>r. snd r = ''Present'') (attendance c)))"
  by (simp add: total_present_def sum_of_ones)

text \<open>
  C3. The specification describes the division in \<open>calculate_attendance\<close> as guarded
  against \<open>total_sessions = 0\<close>, with a default value. The code divides without a guard
  (unlike \<open>check_progression\<close> and \<open>calculate_gpa\<close>): on a course constructed with
  \<open>total_sessions = 0\<close> it raises \<open>ZeroDivisionError\<close>, with or without attendance
  records.
\<close>

theorem calculate_attendance_zero_sessions:
  "calculate_attendance (Course_init ''X'' 0) = Inl ZeroDivisionError \<and>
   calculate_attendance (mark_attendance (Course_init ''X'' 0) (''Sep 16'', ''Present'')) =
     Inl ZeroDivisionError"
  by (simp add: calculate_attendance_def Course_init_def mark_attendance_def percent_of_zero)

text \<open>
  C9. For every course with \<open>total_sessions > 0\<close>, \<open>calculate_attendance\<close> returns the
  number of attendance records whose status is \<open>Present\<close>, divided by the configured
  \<open>total_sessions\<close>, times 100. It is 100 when that number equals \<open>total_sessions\<close>, and
  it is above 100 when more than \<open>total_sessions\<close> records are \<open>Present\<close>.
\<close>

theorem calculate_attendance_spec:
  assumes "0 < total_sessions c"
  shows "calculate_attendance c =
           Inr (of_nat (length (filter (\<lambda>r. snd r = ''Present'') (attendance c)))
                / of_int (total_sessions c) * 100) \<and>
         (int (length (filter (\<lambda>r. snd r = ''Present'') (attendance c))) = total_sessions c
            \<longrightarrow> calculate_attendance c = Inr 100) \<and>
         (total_sessions c < int (length (filter (\<lambda>r. snd r = ''Present'') (attendance c)))
            \<longrightarrow> (\<exists>p. calculate_attendance c = Inr p \<and> 100 < p))"
proof -
  let ?n = "length (filter (\<lambda>r. snd r = ''Present'') (attendance c))"
  have nz: "(of_int (total_sessions c) :: rat) \<noteq> 0" and pos: "(0::rat) < of_int (total_sessions c)"
    using assms by simp_all
  have eq: "calculate_attendance c = Inr (of_nat ?n / of_int (total_sessions c) * 100)"
    using nz by (simp add: calculate_attendance_def total_present_count percent_of_nonzero)
  have full: "of_nat ?n / of_int (total_sessions c) * 100 = (100::rat)"
    if "int ?n = total_sessions c"
  proof -
    have "(of_nat ?n :: rat) = of_int (total_sessions c)"
      using that by (metis of_int_of_nat_eq)
    then show ?thesis using nz by simp
  qed
  have over: "(100::rat) < of_nat ?n / of_int (total_sessions c) * 100"
    if "total_sessions c < int ?n"
  proof -
    have "(of_int (total_sessions c) :: rat) < of_int (int ?n)"
      using that by (simp only: of_int_less_iff)
    then have "(of_int (total_sessions c) :: rat) < of_nat ?n" by simp
    then show ?thesis
      using pos by (simp add: less_divide_eq)
  qed
  show ?thesis using eq full over by simp
qed

theorem calculate_attendance_spec_witness:
  "0 < total_sessions course_1 \<and> calculate_attendance course_1 = Inr 100 \<and>
   0 < total_sessions (mark_attendance course_1 (''Sep 23'', ''Present'')) \<and>
   calculate_attendance (mark_attendance course_1 (''Sep 23'', ''Present'')) = Inr (800 / 7) \<and>
   0 < total_sessions course_3 \<and> calculate_attendance course_3 = Inr 0"
  using calculate_attendance_spec [of course_1]
    calculate_attendance_spec [of "mark_attendance course_1 (''Sep 23'', ''Present'')"]
    calculate_attendance_spec [of course_3]
  by (simp add: course_1_def course_3_def Course_init_def Assignment_init_def add_assignment_def
      mark_attendance_def)

section \<open>Properties of the transcript\<close>

lemma sorted_builtin_mset: "mset (sorted_builtin k r xs) = mset xs"
  by (simp add: sorted_builtin_def)

lemma sorted_builtin_ascending: "sorted (map k (sorted_builtin k False xs))"
  by (simp add: sorted_builtin_def)

lemma sorted_builtin_descending: "sorted (rev (map k (sorted_builtin k True xs)))"
  by (simp add: sorted_builtin_def rev_map)

lemma sorted_builtin_stable:
  "filter (\<lambda>y. k y = v) (sorted_builtin k r xs) = filter (\<lambda>y. k y = v) xs"
proof (cases r)
  case True
  have "filter (\<lambda>y. k y = v) (rev (sort_key k (rev xs))) =
        rev (filter (\<lambda>y. k y = v) (sort_key k (rev xs)))"
    by (simp only: rev_filter)
  also have "\<dots> = rev (filter (\<lambda>y. k y = v) (rev xs))"
    by (simp only: sort_key_stable)
  also have "\<dots> = filter (\<lambda>y. k y = v) xs"
    by (simp only: rev_filter rev_rev_ident)
  finally show ?thesis using True by (simp add: sorted_builtin_def)
next
  case False
  then show ?thesis by (simp add: sorted_builtin_def sort_key_stable)
qed

text \<open>
  C7. For every course, \<open>generate_transcript\<close> returns the course's assignments (the same
  elements, as often) sorted by score: descending when the order argument is
  \<open>descending\<close>, ascending for every other argument. The sort is stable in both orders:
  for every score, the assignments with that score appear in the result in the order they
  have in the course's list.
\<close>

theorem generate_transcript_spec:
  "mset (generate_transcript c sort_order) = mset (assignments c) \<and>
   (sort_order = ''descending'' \<longrightarrow>
      sorted (rev (map score (generate_transcript c sort_order)))) \<and>
   (sort_order \<noteq> ''descending'' \<longrightarrow>
      sorted (map score (generate_transcript c sort_order))) \<and>
   (\<forall>v. filter (\<lambda>a. score a = v) (generate_transcript c sort_order) =
        filter (\<lambda>a. score a = v) (assignments c))"
proof -
  have perm: "mset (generate_transcript c sort_order) = mset (assignments c)"
    by (simp add: generate_transcript_def sorted_builtin_mset)
  have desc: "sorted (rev (map score (generate_transcript c sort_order)))"
    if "sort_order = ''descending''"
    using that sorted_builtin_descending [of score "assignments c"]
    by (simp add: generate_transcript_def)
  have asc: "sorted (map score (generate_transcript c sort_order))"
    if "sort_order \<noteq> ''descending''"
    using that sorted_builtin_ascending [of score "assignments c"]
    by (simp add: generate_transcript_def)
  have stable: "filter (\<lambda>a. score a = v) (generate_transcript c sort_order) =
      filter (\<lambda>a. score a = v) (assignments c)" for v
    by (simp only: generate_transcript_def sorted_builtin_stable)
  show ?thesis using perm desc asc stable by blast
qed

theorem generate_transcript_spec_witness:
  "map name (generate_transcript course_1 ''descending'') =
     [''Python - Hello, World'', ''Python - Data Structures'', ''Python - Inheritance''] \<and>
   map name (generate_transcript course_1 ''ascending'') =
     [''Python - Inheritance'', ''Python - Hello, World'', ''Python - Data Structures''] \<and>
   map name (filter (\<lambda>a. score a = 100) (generate_transcript course_1 ''descending'')) =
     [''Python - Hello, World'', ''Python - Data Structures''] \<and>
   sorted (rev (map score (generate_transcript course_1 ''descending''))) \<and>
   sorted (map score (generate_transcript course_1 ''ascending''))"
  using generate_transcript_spec [of course_1 "''descending''"]
    generate_transcript_spec [of course_1 "''ascending''"]
  by (simp add: generate_transcript_def sorted_builtin_def course_1_def Course_init_def
      Assignment_init_def add_assignment_def mark_attendance_def)

section \<open>Properties of the grade point average and of the report\<close>













section \<open>The transcript leaves the course as it is\<close>

lemma store_lookup_alloc_old:
  "p < length h \<Longrightarrow> store_lookup (snd (store_alloc v h)) p = store_lookup h p"
  by (simp add: store_lookup_def store_alloc_def nth_append)

lemma store_lookup_alloc_new:
  "store_lookup (snd (store_alloc v h)) (fst (store_alloc v h)) = Some v"
  by (simp add: store_lookup_def store_alloc_def)

lemma store_lookup_Some_less: "store_lookup h p = Some v \<Longrightarrow> p < length h"
  by (simp add: store_lookup_def split: if_splits)

lemma course_at_alloc:
  assumes "course_at h q = Some d"
  shows "course_at (snd (store_alloc v h)) q = Some d"
proof -
  from assms obtain n asg att ts xs ys where
    obj: "store_lookup h q = Some (CourseObj n asg att ts)" and
    la: "store_lookup h asg = Some (AssignmentList xs)" and
    lt: "store_lookup h att = Some (AttendanceList ys)" and
    d: "d = \<lparr>course_name = n, assignments = xs, attendance = ys, total_sessions = ts\<rparr>"
    by (auto simp: course_at_def split: option.splits pyobj.splits)
  have "store_lookup (snd (store_alloc v h)) q = Some (CourseObj n asg att ts)"
    using obj store_lookup_Some_less [OF obj] by (simp add: store_lookup_alloc_old)
  moreover have "store_lookup (snd (store_alloc v h)) asg = Some (AssignmentList xs)"
    using la store_lookup_Some_less [OF la] by (simp add: store_lookup_alloc_old)
  moreover have "store_lookup (snd (store_alloc v h)) att = Some (AttendanceList ys)"
    using lt store_lookup_Some_less [OF lt] by (simp add: store_lookup_alloc_old)
  ultimately show ?thesis by (simp add: course_at_def d)
qed

text \<open>
  C10. For every course, \<open>generate_transcript\<close> is a read-only view. On a store in which
  \<open>self\<close> is a course with value \<open>c\<close>, the method returns the address of a new list object
  (an address that held nothing before) whose contents are the sorted assignments; every
  object that existed before is unchanged, so every course of the store, \<open>self\<close> included,
  keeps its value: the assignments list with its order and contents, the attendance and
  \<open>total_sessions\<close>. This holds for every order argument.
\<close>

theorem generate_transcript_read_only:
  assumes "course_at h self = Some c"
  shows "\<exists>r h'. generate_transcript_store self sort_order h = Some (r, h') \<and>
           store_lookup h r = None \<and>
           store_lookup h' r = Some (AssignmentList (generate_transcript c sort_order)) \<and>
           (\<forall>p. p < length h \<longrightarrow> store_lookup h' p = store_lookup h p) \<and>
           (\<forall>q d. course_at h q = Some d \<longrightarrow> course_at h' q = Some d) \<and>
           course_at h' self = Some c"
proof -
  from assms obtain n asg att ts ys where
    obj: "store_lookup h self = Some (CourseObj n asg att ts)" and
    la: "store_lookup h asg = Some (AssignmentList (assignments c))"
    by (auto simp: course_at_def split: option.splits pyobj.splits)
  let ?v = "AssignmentList (generate_transcript c sort_order)"
  have run: "generate_transcript_store self sort_order h =
      Some (fst (store_alloc ?v h), snd (store_alloc ?v h))"
    by (simp add: generate_transcript_store_def obj la generate_transcript_def)
  have fresh: "store_lookup h (fst (store_alloc ?v h)) = None"
    by (simp add: store_lookup_def store_alloc_def)
  have old: "\<forall>p. p < length h \<longrightarrow> store_lookup (snd (store_alloc ?v h)) p = store_lookup h p"
    by (simp add: store_lookup_alloc_old)
  have views: "\<forall>q d. course_at h q = Some d \<longrightarrow> course_at (snd (store_alloc ?v h)) q = Some d"
    by (simp add: course_at_alloc)
  show ?thesis
    using run fresh old views assms store_lookup_alloc_new [of ?v h] by blast
qed

theorem generate_transcript_read_only_witness:
  "course_at
     [AssignmentList (assignments course_1), AttendanceList (attendance course_1),
      CourseObj (course_name course_1) 0 1 7] 2 = Some course_1 \<and>
   (\<exists>h'. generate_transcript_store 2 ''descending''
       [AssignmentList (assignments course_1), AttendanceList (attendance course_1),
        CourseObj (course_name course_1) 0 1 7] = Some (3, h') \<and>
     store_lookup h' 0 = Some (AssignmentList (assignments course_1)) \<and>
     store_lookup h' 3 = Some (AssignmentList (generate_transcript course_1 ''descending'')) \<and>
     course_at h' 2 = Some course_1)"
proof -
  let ?h = "[AssignmentList (assignments course_1), AttendanceList (attendance course_1),
      CourseObj (course_name course_1) 0 1 7]"
  have c: "course_at ?h 2 = Some course_1"
    by (simp add: course_at_def store_lookup_def course_1_def Course_init_def
        add_assignment_def mark_attendance_def)
  from generate_transcript_read_only [OF c, of "''descending''"] obtain r h' where
    run: "generate_transcript_store 2 ''descending'' ?h = Some (r, h')" and
    new: "store_lookup h' r = Some (AssignmentList (generate_transcript course_1 ''descending''))" and
    old: "\<forall>p. p < length ?h \<longrightarrow> store_lookup h' p = store_lookup ?h p" and
    same: "course_at h' 2 = Some course_1"
    by blast
  have r: "r = 3"
    using run by (simp add: generate_transcript_store_def store_lookup_def store_alloc_def)
  have "store_lookup h' 0 = Some (AssignmentList (assignments course_1))"
    using old [rule_format, of 0] by (simp add: store_lookup_def)
  then show ?thesis using c run new same r by blast
qed

end
